theory Spec2Isabelle
  imports Main
begin

section \<open>JavaScript values used by the worker and the status script\<close>

text \<open>
  Strings are \<open>string\<close>: lists of 8-bit characters, read as the code units U+0000 to
  U+00FF of a JavaScript string.  An optional field (\<open>x?: string\<close>, a missing header,
  an unset environment variable) is an \<open>option\<close>, with \<open>None\<close> for \<open>undefined\<close>.
\<close>

text \<open>Truthiness of \<open>string | undefined\<close>: \<open>undefined\<close> and the empty string are falsy.\<close>

fun truthy :: "string option \<Rightarrow> bool" where
  "truthy None = False"
| "truthy (Some s) = (s \<noteq> [])"

text \<open>
  The WhiteSpace and LineTerminator code units that \<open>String.prototype.trim\<close> strips,
  as far as they lie below U+0100: TAB, LF, VT, FF, CR, SPACE and NBSP.
\<close>

definition isWhiteSpace :: "char \<Rightarrow> bool" where
  "isWhiteSpace c = (of_char c \<in> {9, 10, 11, 12, 13, 32, 160 :: nat})"

definition trim :: "string \<Rightarrow> string" where
  "trim s = rev (dropWhile isWhiteSpace (rev (dropWhile isWhiteSpace s)))"

text \<open>\<open>parts.join(' ')\<close>\<close>

fun join :: "string list \<Rightarrow> string" where
  "join [] = []"
| "join [p] = p"
| "join (p # q # ps) = p @ '' '' @ join (q # ps)"

text \<open>
  The text of a number in a template literal, for a non-negative integer below
  \<open>10^21\<close>, where JavaScript writes all the digits.  It is used for HTTP statuses.
\<close>

fun digit :: "nat \<Rightarrow> char" where
  "digit n = char_of (48 + n)"

function show_nat :: "nat \<Rightarrow> string" where
  "show_nat n = (if n < 10 then [digit n] else show_nat (n div 10) @ [digit (n mod 10)])"
  by pat_completeness auto
termination
  by (relation "measure id") auto

declare show_nat.simps [simp del]

section \<open>Data model of the worker\<close>

text \<open>\<open>type Bindings\<close>\<close>

record Bindings =
  BOT_API_TOKEN :: string
  WEBHOOK_SECRET_TOKEN :: "string option"
  BASE_URL :: "string option"
  AUTO_WEBHOOK_INIT :: "string option"

text \<open>
  The Telegram types.  Field names that are reserved words or constants of HOL carry a
  prefix: \<open>id\<close> is \<open>user_id\<close> and \<open>chat_id\<close>, \<open>type\<close> is \<open>chat_type\<close>,
  \<open>from\<close> is \<open>from_user\<close>, \<open>text\<close> is \<open>msg_text\<close>.
\<close>

record TelegramUser =
  user_id :: int
  is_bot :: bool
  first_name :: "string option"
  last_name :: "string option"
  username :: "string option"

record TelegramChat =
  chat_id :: int
  chat_type :: string

text \<open>
  \<open>chat\<close> is declared without \<open>?\<close>, but the handler tests \<open>!message.chat\<close> on the
  parsed body, so the model keeps it optional.
\<close>

record TelegramMessage =
  message_id :: int
  date :: int
  chat :: "TelegramChat option"
  from_user :: "TelegramUser option"
  msg_text :: "string option"

record TelegramUpdate =
  update_id :: int
  message :: "TelegramMessage option"
  edited_message :: "TelegramMessage option"

section \<open>The greeting\<close>

text \<open>
  \<open>buildGreeting\<close>: the three \<open>if (field) parts.push(...)\<close> statements, each pushing
  nothing for a falsy field, then \<open>parts.join(' ').trim()\<close>.
\<close>

definition greeting_parts :: "TelegramUser \<Rightarrow> string list" where
  "greeting_parts user =
     (if truthy (username user) then [CHR ''@'' # the (username user)] else []) @
     (if truthy (first_name user) then [the (first_name user)] else []) @
     (if truthy (last_name user) then [the (last_name user)] else [])"

fun buildGreeting :: "TelegramUser option \<Rightarrow> string" where
  "buildGreeting None = ''Hello there''"
| "buildGreeting (Some user) =
     (let info = trim (join (greeting_parts user))
      in if info \<noteq> [] then ''Hello '' @ info else ''Hello there'')"

section \<open>Outbound HTTP\<close>

text \<open>
  A body built by \<open>JSON.stringify\<close> from an object literal is kept as that object:
  \<open>{drop_pending_updates}\<close>, \<open>{url, secret_token, max_connections, allowed_updates}\<close>
  and \<open>{update_id}\<close>.
\<close>

datatype payload =
  DeleteWebhookBody bool
| SetWebhookBody string "string option" nat "string list"
| UpdateBody int

record http_request =
  url :: string
  http_method :: string
  headers :: "(string \<times> string) list"
  payload :: "payload option"

text \<open>
  The \<open>method\<close> option of a call is the field \<open>http_method\<close>.
\<close>

text \<open>
  Of a parsed reply the code reads only \<open>data.ok\<close>: the reply is \<open>null\<close>, where that
  read throws a TypeError, or a value whose \<open>ok\<close> is truthy or not.
\<close>

datatype json_value = JsonNull | JsonValue bool

text \<open>
  A \<open>Response\<close>: \<open>res.ok\<close>, \<open>res.status\<close>, \<open>res.headers.get('content-type')\<close>, and what
  \<open>await res.json()\<close> and \<open>await res.text()\<close> give, \<open>Inl\<close> the message of the error
  when they reject.  \<open>fetch\<close> itself rejects (\<open>Inl\<close>) or gives a response.
\<close>

record http_response =
  res_ok :: bool
  res_status :: nat
  content_type :: "string option"
  res_json :: "string + json_value"
  res_text :: "string + string"

type_synonym fetch = "http_request \<Rightarrow> string + http_response"

definition TELEGRAM_API :: "string \<Rightarrow> string" where
  "TELEGRAM_API token = ''https://api.telegram.org/bot'' @ token"

section \<open>The webhook receiver\<close>

text \<open>
  What the code does besides returning: console output (the message, without the
  further arguments printed after it), reading the request body, outbound calls, and
  work handed to \<open>executionCtx.waitUntil\<close>.  \<open>ConsoleLogNumber s n\<close> is \<open>console.log\<close>
  of a template literal made of the text \<open>s\<close> and then the number \<open>n\<close>, which is kept
  as a number.
\<close>

datatype task =
  SendMessage string int string
| ConfigureWebhook

datatype effect =
  ConsoleLog string
| ConsoleLogNumber string int
| ConsoleWarn string
| ConsoleError string
| ReqJson
| Fetch http_request
| WaitUntil task

text \<open>
  A request as the handler reads it: the request id that \<open>getRequestId\<close> drew, the
  value of \<open>c.req.header('X-Telegram-Bot-Api-Secret-Token')\<close>, and the outcome of
  \<open>c.req.json<TelegramUpdate>()\<close>: \<open>None\<close> when it throws, else the parsed body at
  its declared type.
\<close>

record request =
  reqId :: string
  secretHeader :: "string option"
  json :: "TelegramUpdate option"

record response =
  status :: nat
  body :: string

definition text_response :: "string \<Rightarrow> nat \<Rightarrow> response" where
  "text_response b s = \<lparr>status = s, body = b\<rparr>"

definition tag :: "string \<Rightarrow> string" where
  "tag rid = ''['' @ rid @ ''] ''"

text \<open>\<open>update.message || update.edited_message\<close>\<close>

definition selected_message :: "TelegramUpdate \<Rightarrow> TelegramMessage option" where
  "selected_message update =
     (case message update of Some m \<Rightarrow> Some m | None \<Rightarrow> edited_message update)"

text \<open>\<open>app.post('/webhook', ...)\<close>\<close>

definition webhook :: "Bindings \<Rightarrow> request \<Rightarrow> response \<times> effect list" where
  "webhook env req =
     (let configuredSecret = WEBHOOK_SECRET_TOKEN env in
      if truthy configuredSecret \<and> secretHeader req \<noteq> configuredSecret then
        (text_response ''unauthorized'' 401,
         [ConsoleWarn (tag (reqId req) @ ''Webhook rejected: invalid secret token'')])
      else
        (case json req of
           None \<Rightarrow>
             (text_response ''bad request'' 400,
              [ReqJson, ConsoleError (tag (reqId req) @ ''Invalid JSON'')])
         | Some update \<Rightarrow>
             (case selected_message update of
                None \<Rightarrow>
                  (text_response ''ok'' 200,
                   [ReqJson, ConsoleLog (tag (reqId req) @ ''No message payload; acking'')])
              | Some m \<Rightarrow>
                  (case chat m of
                     None \<Rightarrow>
                       (text_response ''ok'' 200,
                        [ReqJson, ConsoleLog (tag (reqId req) @ ''No message payload; acking'')])
                   | Some ch \<Rightarrow>
                       (let greeting = buildGreeting (from_user m);
                            chatId = chat_id ch
                        in (text_response ''ok'' 200,
                            [ReqJson,
                             WaitUntil (SendMessage (BOT_API_TOKEN env) chatId greeting),
                             ConsoleLogNumber
                               (tag (reqId req) @ ''Update processed for chat '') chatId]))))))"

text \<open>What the claims speak of: whether the body was parsed, and the sends scheduled.\<close>

definition parsed_body :: "effect list \<Rightarrow> bool" where
  "parsed_body es = (ReqJson \<in> set es)"

fun is_send :: "effect \<Rightarrow> bool" where
  "is_send (WaitUntil (SendMessage _ _ _)) = True"
| "is_send _ = False"

definition scheduled_sends :: "effect list \<Rightarrow> effect list" where
  "scheduled_sends es = filter is_send es"

fun is_outbound :: "effect \<Rightarrow> bool" where
  "is_outbound (Fetch _) = True"
| "is_outbound (WaitUntil _) = True"
| "is_outbound _ = False"

definition outbound_calls :: "effect list \<Rightarrow> effect list" where
  "outbound_calls es = filter is_outbound es"

text \<open>
  A request passes the secret check when no secret is configured or the header
  equals the configured secret.
\<close>

definition passes_secret_check :: "Bindings \<Rightarrow> request \<Rightarrow> bool" where
  "passes_secret_check env req =
     (\<not> truthy (WEBHOOK_SECRET_TOKEN env) \<or> secretHeader req = WEBHOOK_SECRET_TOKEN env)"

section \<open>The one-time webhook initializer\<close>

text \<open>
  An \<open>async\<close> body either completes or throws, and emits effects on the way: the
  outcome (\<open>Inl\<close> the error thrown) with the effects emitted until then.
\<close>

type_synonym 'a comp = "(string + 'a) \<times> effect list"

definition ret :: "'a \<Rightarrow> 'a comp" where
  "ret x = (Inr x, [])"

definition emit :: "effect \<Rightarrow> unit comp" where
  "emit e = (Inr (), [e])"

definition await :: "string + 'a \<Rightarrow> 'a comp" where
  "await r = (r, [])"

definition and_then :: "'a comp \<Rightarrow> ('a \<Rightarrow> 'b comp) \<Rightarrow> 'b comp" where
  "and_then m f =
     (case m of
        (Inl err, es) \<Rightarrow> (Inl err, es)
      | (Inr x, es) \<Rightarrow> (case f x of (r, es') \<Rightarrow> (r, es @ es')))"

text \<open>\<open>try { m } catch (err) { h err }\<close>\<close>

definition try_catch :: "unit comp \<Rightarrow> (string \<Rightarrow> unit comp) \<Rightarrow> unit comp" where
  "try_catch m h =
     (case m of
        (Inl err, es) \<Rightarrow> (case h err of (r, es') \<Rightarrow> (r, es @ es'))
      | (Inr x, es) \<Rightarrow> (Inr x, es))"

text \<open>\<open>await fetch(url, options)\<close>: the call is made, then rejects or gives a response.\<close>

definition do_fetch :: "fetch \<Rightarrow> http_request \<Rightarrow> http_response comp" where
  "do_fetch fetch rq = (fetch rq, [Fetch rq])"

text \<open>\<open>s.replace(/\/$/, '')\<close>\<close>

definition strip_slash :: "string \<Rightarrow> string" where
  "strip_slash s = (if s \<noteq> [] \<and> last s = CHR ''/'' then butlast s else s)"

text \<open>\<open>res.json().catch(async () => ({ ok: false, description: await res.text() }))\<close>\<close>

definition read_reply :: "http_response \<Rightarrow> string + json_value" where
  "read_reply res =
     (case res_json res of
        Inr d \<Rightarrow> Inr d
      | Inl _ \<Rightarrow> (case res_text res of Inl err \<Rightarrow> Inl err | Inr _ \<Rightarrow> Inr (JsonValue False)))"

text \<open>\<open>!res.ok || !data.ok\<close>, where \<open>data.ok\<close> is read only if \<open>res.ok\<close> holds.\<close>

definition not_ok :: "http_response \<Rightarrow> json_value \<Rightarrow> string + bool" where
  "not_ok res d =
     (if res_ok res then
        (case d of JsonNull \<Rightarrow> Inl ''TypeError'' | JsonValue k \<Rightarrow> Inr (\<not> k))
      else Inr True)"

definition deleteWebhook_request :: "string \<Rightarrow> http_request" where
  "deleteWebhook_request token =
     \<lparr>url = TELEGRAM_API token @ ''/deleteWebhook'', http_method = ''POST'',
      headers = [(''Content-Type'', ''application/json'')],
      payload = Some (DeleteWebhookBody True)\<rparr>"

definition setWebhook_request :: "string \<Rightarrow> string \<Rightarrow> string option \<Rightarrow> http_request" where
  "setWebhook_request token baseUrl secret =
     \<lparr>url = TELEGRAM_API token @ ''/setWebhook'', http_method = ''POST'',
      headers = [(''Content-Type'', ''application/json'')],
      payload = Some (SetWebhookBody (baseUrl @ ''/webhook'') secret 40
                        [''message'', ''edited_message''])\<rparr>"

text \<open>The body of the first \<open>try\<close> block of \<open>configureWebhook\<close>.\<close>

definition delete_block :: "fetch \<Rightarrow> string \<Rightarrow> unit comp" where
  "delete_block fetch token =
     and_then (do_fetch fetch (deleteWebhook_request token)) (\<lambda>delRes.
     and_then (await (read_reply delRes)) (\<lambda>delData.
     and_then (await (not_ok delRes delData)) (\<lambda>failed.
       if failed then emit (ConsoleWarn ''deleteWebhook did not succeed'') else ret ())))"

text \<open>The body of the second \<open>try\<close> block.\<close>

definition set_block :: "fetch \<Rightarrow> string \<Rightarrow> string \<Rightarrow> string option \<Rightarrow> unit comp" where
  "set_block fetch token baseUrl secret =
     and_then (do_fetch fetch (setWebhook_request token baseUrl secret)) (\<lambda>setRes.
     and_then (await (read_reply setRes)) (\<lambda>setData.
     and_then (await (not_ok setRes setData)) (\<lambda>failed.
       if failed then emit (ConsoleError ''setWebhook failed'')
       else emit (ConsoleLog ''Webhook configured''))))"

definition configureWebhook :: "fetch \<Rightarrow> Bindings \<Rightarrow> unit comp" where
  "configureWebhook fetch env =
     (let token = BOT_API_TOKEN env;
          baseUrl = map_option strip_slash (BASE_URL env);
          secret = WEBHOOK_SECRET_TOKEN env
      in and_then
           (try_catch (delete_block fetch token)
              (\<lambda>err. emit (ConsoleWarn ''deleteWebhook error'')))
           (\<lambda>_. if truthy baseUrl then
                   try_catch (set_block fetch token (the baseUrl) secret)
                     (\<lambda>err. emit (ConsoleError ''setWebhook error''))
                 else emit (ConsoleWarn ''configureWebhook skipped: BASE_URL not configured'')))"

text \<open>
  \<open>String.prototype.toLowerCase\<close> on code units below U+0100: A to Z, and the
  Latin-1 capitals U+00C0 to U+00DE without the multiplication sign U+00D7.
\<close>

definition lower_char :: "char \<Rightarrow> char" where
  "lower_char c =
     (let n = of_char c :: nat
      in if (65 \<le> n \<and> n \<le> 90) \<or> (192 \<le> n \<and> n \<le> 222 \<and> n \<noteq> 215)
         then char_of (n + 32) else c)"

definition toLowerCase :: "string \<Rightarrow> string" where
  "toLowerCase s = map lower_char s"

text \<open>
  The state of one worker process.  \<open>webhookInitPromise\<close> is \<open>null\<close> (\<open>None\<close>) or the
  promise \<open>configureWebhook(c.env).catch(...)\<close>: pending, carrying what the started
  \<open>configureWebhook\<close> will have done when it settles, or settled.  \<open>trace\<close> collects
  the effects of the process.
\<close>

datatype promise = Pending "unit comp" | Settled

record process =
  webhookInitPromise :: "promise option"
  trace :: "effect list"

definition cold_start :: process where
  "cold_start = \<lparr>webhookInitPromise = None, trace = []\<rparr>"

definition enabled :: "Bindings \<Rightarrow> bool" where
  "enabled env =
     (toLowerCase (case AUTO_WEBHOOK_INIT env of None \<Rightarrow> [] | Some v \<Rightarrow> v) = ''true'')"

text \<open>
  The middleware \<open>app.use('*', ...)\<close>, up to \<open>return next()\<close>.  \<open>fetch\<close> is the network
  as the \<open>configureWebhook\<close> started here will meet it.
\<close>

definition middleware :: "Bindings \<Rightarrow> fetch \<Rightarrow> process \<Rightarrow> process" where
  "middleware env fetch p =
     (if enabled env \<and> webhookInitPromise p = None then
        p\<lparr>webhookInitPromise := Some (Pending (configureWebhook fetch env)),
          trace := trace p @ [WaitUntil ConfigureWebhook]\<rparr>
      else p)"

text \<open>
  The pending promise settles: the effects of \<open>configureWebhook\<close> have happened, and if
  it rejected, the \<open>.catch\<close> callback logs and resets the latch.
\<close>

definition settle :: "process \<Rightarrow> process" where
  "settle p =
     (case webhookInitPromise p of
        Some (Pending (Inl err, es)) \<Rightarrow>
          p\<lparr>webhookInitPromise := None,
            trace := trace p @ es @ [ConsoleError ''Webhook init failed'']\<rparr>
      | Some (Pending (Inr _, es)) \<Rightarrow>
          p\<lparr>webhookInitPromise := Some Settled, trace := trace p @ es\<rparr>
      | _ \<Rightarrow> p)"

text \<open>
  What happens to a process.  \<open>Health\<close> is a request that \<open>app.get('/')\<close> answers: that
  handler is registered before \<open>app.use('*')\<close> and returns without calling \<open>next\<close>, so
  the middleware does not run.  \<open>Request\<close> is a request that the router passes to the
  middleware.  \<open>Settle\<close> is the pending promise settling.
\<close>

datatype event = Health | Request fetch | Settle

fun step :: "Bindings \<Rightarrow> process \<Rightarrow> event \<Rightarrow> process" where
  "step env p Health = p"
| "step env p (Request fetch) = middleware env fetch p"
| "step env p Settle = settle p"

definition run :: "Bindings \<Rightarrow> event list \<Rightarrow> process" where
  "run env evs = foldl (step env) cold_start evs"

text \<open>How often \<open>configureWebhook\<close> was started, read off the effects.\<close>

definition invocations :: "effect list \<Rightarrow> nat" where
  "invocations es = length (filter (\<lambda>e. e = WaitUntil ConfigureWebhook) es)"

text \<open>
  The invariant of the latch: it is \<open>null\<close> exactly as long as \<open>configureWebhook\<close> has
  not been started, and a pending promise is one that will be fulfilled.
\<close>

definition latch_inv :: "process \<Rightarrow> bool" where
  "latch_inv p =
     (case webhookInitPromise p of
        None \<Rightarrow> invocations (trace p) = 0
      | Some (Pending c) \<Rightarrow>
          invocations (trace p) = 1 \<and> fst c = Inr () \<and> invocations (snd c) = 0
      | Some Settled \<Rightarrow> invocations (trace p) = 1)"

section \<open>The status script\<close>

text \<open>\<open>ct.includes(p)\<close>\<close>

fun starts_with :: "string \<Rightarrow> string \<Rightarrow> bool" where
  "starts_with s [] = True"
| "starts_with [] (c # p) = False"
| "starts_with (d # s) (c # p) = (d = c \<and> starts_with s p)"

fun includes_str :: "string \<Rightarrow> string \<Rightarrow> bool" where
  "includes_str [] p = (p = [])"
| "includes_str (d # s) p = (starts_with (d # s) p \<or> includes_str s p)"

text \<open>What \<open>fetchJson\<close> returns: \<open>{ ok, status, data }\<close>.\<close>

datatype data = Json json_value | Text string

record fetched =
  fetched_ok :: bool
  fetched_status :: nat
  fetched_data :: data

definition fetchJson :: "fetch \<Rightarrow> http_request \<Rightarrow> fetched" where
  "fetchJson fetch rq =
     (case fetch rq of
        Inl err \<Rightarrow> \<lparr>fetched_ok = False, fetched_status = 0, fetched_data = Text err\<rparr>
      | Inr res \<Rightarrow>
          (let ct = (case content_type res of None \<Rightarrow> [] | Some v \<Rightarrow> v);
               isJson = includes_str ct ''application/json''
           in case (if isJson then map_sum id Json (res_json res)
                    else map_sum id Text (res_text res)) of
                Inl err \<Rightarrow> \<lparr>fetched_ok = False, fetched_status = 0, fetched_data = Text err\<rparr>
              | Inr d \<Rightarrow>
                  \<lparr>fetched_ok = res_ok res, fetched_status = res_status res,
                   fetched_data = d\<rparr>))"

text \<open>What a check returns: \<open>{ ok, details }\<close>.\<close>

record check =
  ok :: bool
  details :: string

definition webhook_post :: "string \<Rightarrow> string \<Rightarrow> int \<Rightarrow> http_request" where
  "webhook_post baseUrl secret_header n =
     \<lparr>url = baseUrl @ ''/webhook'', http_method = ''POST'',
      headers = [(''Content-Type'', ''application/json''),
                 (''X-Telegram-Bot-Api-Secret-Token'', secret_header)],
      payload = Some (UpdateBody n)\<rparr>"

text \<open>
  \<open>checkWebhookSecret\<close>, with the calls it made: each request and what \<open>fetchJson\<close>
  returned for it, in order.
\<close>

definition checkWebhookSecret ::
  "fetch \<Rightarrow> string \<Rightarrow> string option \<Rightarrow> check \<times> (http_request \<times> fetched) list" where
  "checkWebhookSecret fetch baseUrl secret =
     (if baseUrl = [] then (\<lparr>ok = False, details = ''BASE_URL is missing''\<rparr>, [])
      else
        (let good_rq = webhook_post baseUrl (if truthy secret then the secret else []) 1;
             good = fetchJson fetch good_rq;
             bad_rq = webhook_post baseUrl ''__invalid__'' 2;
             bad = fetchJson fetch bad_rq;
             enforced =
               (if truthy secret then fetched_status bad = 401 \<and> fetched_status good = 200
                else fetched_status good = 200 \<and> fetched_status bad = 200);
             details =
               ''good='' @ show_nat (fetched_status good) @ ''; bad=''
               @ show_nat (fetched_status bad) @ ''; enforced=''
               @ (if truthy secret then ''yes'' else ''no'')
         in (\<lparr>ok = enforced, details = details\<rparr>, [(good_rq, good), (bad_rq, bad)])))"

section \<open>The greeting as the specification words it\<close>

text \<open>
  The tokens \<open>@username\<close>, first name, last name of the fields that are present, in
  order.  A field is present when it is a non-empty string.
\<close>

fun present :: "string option \<Rightarrow> bool" where
  "present None = False"
| "present (Some s) = (s \<noteq> [])"

definition spec_tokens :: "TelegramUser \<Rightarrow> string list" where
  "spec_tokens user =
     (case username user of None \<Rightarrow> [] | Some n \<Rightarrow> if n = [] then [] else [CHR ''@'' # n]) @
     (case first_name user of None \<Rightarrow> [] | Some f \<Rightarrow> if f = [] then [] else [f]) @
     (case last_name user of None \<Rightarrow> [] | Some l \<Rightarrow> if l = [] then [] else [l])"

text \<open>
  The greeting of the specification: \<open>Hello there\<close> for an absent sender or when all
  three fields are absent, else the tokens joined by single spaces after \<open>Hello\<close>.
\<close>

fun spec_greeting :: "TelegramUser option \<Rightarrow> string" where
  "spec_greeting None = ''Hello there''"
| "spec_greeting (Some user) =
     (if present (username user) \<or> present (first_name user) \<or> present (last_name user)
      then ''Hello '' @ join (spec_tokens user) else ''Hello there'')"

text \<open>A field that does not begin or end with white space.\<close>

fun tidy :: "string option \<Rightarrow> bool" where
  "tidy None = True"
| "tidy (Some s) = (s = [] \<or> (\<not> isWhiteSpace (hd s) \<and> \<not> isWhiteSpace (last s)))"

section \<open>Example inputs\<close>

abbreviation env_S1 :: Bindings where
  "env_S1 \<equiv> \<lparr>BOT_API_TOKEN = ''123:abc'', WEBHOOK_SECRET_TOKEN = Some ''S1'',
             BASE_URL = Some ''https://bot.example.dev/'', AUTO_WEBHOOK_INIT = Some ''TRUE''\<rparr>"

abbreviation env_open :: Bindings where
  "env_open \<equiv> \<lparr>BOT_API_TOKEN = ''123:abc'', WEBHOOK_SECRET_TOKEN = None,
               BASE_URL = None, AUTO_WEBHOOK_INIT = None\<rparr>"

abbreviation env_empty :: Bindings where
  "env_empty \<equiv> \<lparr>BOT_API_TOKEN = ''123:abc'', WEBHOOK_SECRET_TOKEN = Some [],
                BASE_URL = None, AUTO_WEBHOOK_INIT = None\<rparr>"

abbreviation bob :: TelegramUser where
  "bob \<equiv> \<lparr>user_id = 5, is_bot = False, first_name = Some ''Bob'', last_name = None,
          username = Some ''bob''\<rparr>"

abbreviation padded :: TelegramUser where
  "padded \<equiv> \<lparr>user_id = 6, is_bot = False, first_name = Some '' B'', last_name = None,
             username = None\<rparr>"

abbreviation from_bob :: TelegramMessage where
  "from_bob \<equiv> \<lparr>message_id = 10, date = 1700000000,
               chat = Some \<lparr>chat_id = 42, chat_type = ''private''\<rparr>,
               from_user = Some bob, msg_text = Some ''hi''\<rparr>"

abbreviation edited :: TelegramMessage where
  "edited \<equiv> \<lparr>message_id = 9, date = 1700000001,
             chat = Some \<lparr>chat_id = 7, chat_type = ''group''\<rparr>,
             from_user = None, msg_text = Some ''old''\<rparr>"

abbreviation chatless :: TelegramMessage where
  "chatless \<equiv> \<lparr>message_id = 11, date = 1700000002, chat = None,
               from_user = Some bob, msg_text = None\<rparr>"

abbreviation bare_update :: TelegramUpdate where
  "bare_update \<equiv> \<lparr>update_id = 1, message = None, edited_message = None\<rparr>"

abbreviation both_update :: TelegramUpdate where
  "both_update \<equiv> \<lparr>update_id = 2, message = Some from_bob, edited_message = Some edited\<rparr>"

abbreviation chatless_update :: TelegramUpdate where
  "chatless_update \<equiv> \<lparr>update_id = 3, message = None, edited_message = Some chatless\<rparr>"

abbreviation post :: "string option \<Rightarrow> TelegramUpdate option \<Rightarrow> request" where
  "post h b \<equiv> \<lparr>reqId = ''req-1'', secretHeader = h, json = b\<rparr>"

abbreviation offline :: fetch where
  "offline \<equiv> (\<lambda>rq. Inl ''fetch failed'')"

abbreviation worker_S1 :: fetch where
  "worker_S1 \<equiv>
     (\<lambda>rq. if map_of (headers rq) ''X-Telegram-Bot-Api-Secret-Token'' = Some ''S1''
            then Inr \<lparr>res_ok = True, res_status = 200,
                      content_type = Some ''text/plain; charset=UTF-8'',
                      res_json = Inl ''Unexpected token'', res_text = Inr ''ok''\<rparr>
            else Inr \<lparr>res_ok = False, res_status = 401,
                      content_type = Some ''text/plain; charset=UTF-8'',
                      res_json = Inl ''Unexpected token'', res_text = Inr ''unauthorized''\<rparr>)"

section \<open>The secret check\<close>

text \<open>
  C1.  When a shared secret is configured, that is \<open>WEBHOOK_SECRET_TOKEN\<close> is a
  non-empty string, and the secret header of the request is missing or differs from
  it, the handler answers 401 and stops: the body is not parsed and no send is
  scheduled.
\<close>

theorem webhook_wrong_secret_unauthorized:
  assumes "WEBHOOK_SECRET_TOKEN env = Some s" and "s \<noteq> []" and "secretHeader req \<noteq> Some s"
  shows "fst (webhook env req) = \<lparr>status = 401, body = ''unauthorized''\<rparr>
       \<and> snd (webhook env req)
           = [ConsoleWarn (tag (reqId req) @ ''Webhook rejected: invalid secret token'')]
       \<and> \<not> parsed_body (snd (webhook env req))
       \<and> scheduled_sends (snd (webhook env req)) = []"
  using assms
  by (simp add: webhook_def text_response_def parsed_body_def scheduled_sends_def)

theorem webhook_wrong_secret_unauthorized_witness:
  "WEBHOOK_SECRET_TOKEN env_S1 = Some ''S1'' \<and> ''S1'' \<noteq> []
   \<and> secretHeader (post (Some ''wrong'') (Some both_update)) \<noteq> Some ''S1''
   \<and> fst (webhook env_S1 (post (Some ''wrong'') (Some both_update)))
       = \<lparr>status = 401, body = ''unauthorized''\<rparr>
   \<and> snd (webhook env_S1 (post (Some ''wrong'') (Some both_update)))
       = [ConsoleWarn ''[req-1] Webhook rejected: invalid secret token'']
   \<and> \<not> parsed_body (snd (webhook env_S1 (post (Some ''wrong'') (Some both_update))))
   \<and> scheduled_sends (snd (webhook env_S1 (post (Some ''wrong'') (Some both_update)))) = []"
proof -
  have h1: "WEBHOOK_SECRET_TOKEN env_S1 = Some ''S1''" by simp
  have h2: "''S1'' \<noteq> []" by simp
  have h3: "secretHeader (post (Some ''wrong'') (Some both_update)) \<noteq> Some ''S1''" by simp
  from webhook_wrong_secret_unauthorized [OF h1 h2 h3] h1 h2 h3 show ?thesis
    by (simp add: tag_def parsed_body_def scheduled_sends_def)
qed

text \<open>
  C2.  When no shared secret is configured (the variable is unset or empty), the
  handler never answers 401, whatever the secret header of the request is.
\<close>

theorem webhook_no_secret_never_unauthorized:
  assumes "\<not> truthy (WEBHOOK_SECRET_TOKEN env)"
  shows "status (fst (webhook env req)) \<noteq> 401"
  using assms
  by (simp add: webhook_def text_response_def Let_def split: option.splits)

theorem webhook_no_secret_never_unauthorized_witness:
  "\<not> truthy (WEBHOOK_SECRET_TOKEN env_open)
   \<and> status (fst (webhook env_open (post (Some ''wrong'') (Some both_update)))) \<noteq> 401"
proof -
  have h: "\<not> truthy (WEBHOOK_SECRET_TOKEN env_open)" by simp
  from webhook_no_secret_never_unauthorized [OF h] h show ?thesis
    by (simp only: simp_thms)
qed

text \<open>
  C8.  A configured secret that is the empty string counts as no secret: the handler
  never answers 401, because the configured value is tested for truthiness before it
  is compared with the header.
\<close>

theorem webhook_empty_secret_never_unauthorized:
  assumes "WEBHOOK_SECRET_TOKEN env = Some []"
  shows "status (fst (webhook env req)) \<noteq> 401"
  using assms
  by (simp add: webhook_def text_response_def Let_def split: option.splits)

theorem webhook_empty_secret_never_unauthorized_witness:
  "WEBHOOK_SECRET_TOKEN env_empty = Some []
   \<and> status (fst (webhook env_empty (post (Some ''wrong'') (Some both_update)))) \<noteq> 401"
proof -
  have h: "WEBHOOK_SECRET_TOKEN env_empty = Some []" by simp
  from webhook_empty_secret_never_unauthorized [OF h] h show ?thesis
    by (simp only: simp_thms)
qed

section \<open>Parsing and acknowledging\<close>

text \<open>
  C4.  For a request that passes the secret check, a body that fails JSON parsing
  gives 400, and no send is scheduled.
\<close>

theorem webhook_invalid_json_bad_request:
  assumes "passes_secret_check env req" and "json req = None"
  shows "fst (webhook env req) = \<lparr>status = 400, body = ''bad request''\<rparr>
       \<and> scheduled_sends (snd (webhook env req)) = []"
  using assms
  by (auto simp add: webhook_def passes_secret_check_def text_response_def
      scheduled_sends_def)

theorem webhook_invalid_json_bad_request_witness:
  "passes_secret_check env_S1 (post (Some ''S1'') None)
   \<and> json (post (Some ''S1'') None) = None
   \<and> fst (webhook env_S1 (post (Some ''S1'') None)) = \<lparr>status = 400, body = ''bad request''\<rparr>
   \<and> scheduled_sends (snd (webhook env_S1 (post (Some ''S1'') None))) = []"
proof -
  have h1: "passes_secret_check env_S1 (post (Some ''S1'') None)"
    by (simp add: passes_secret_check_def)
  have h2: "json (post (Some ''S1'') None) = None" by simp
  from webhook_invalid_json_bad_request [OF h1 h2] h1 h2 show ?thesis
    by (simp only: simp_thms)
qed

text \<open>
  C5.  For a parsed update with neither \<open>message\<close> nor \<open>edited_message\<close>, the handler
  answers 200 with body \<open>ok\<close> and makes no outbound call: nothing is fetched and nothing
  is handed to \<open>waitUntil\<close>.
\<close>

theorem webhook_no_message_acks:
  assumes "passes_secret_check env req" and "json req = Some u"
    and "message u = None" and "edited_message u = None"
  shows "fst (webhook env req) = \<lparr>status = 200, body = ''ok''\<rparr>
       \<and> outbound_calls (snd (webhook env req)) = []"
  using assms
  by (auto simp add: webhook_def passes_secret_check_def text_response_def
      outbound_calls_def selected_message_def)

theorem webhook_no_message_acks_witness:
  "passes_secret_check env_S1 (post (Some ''S1'') (Some bare_update))
   \<and> json (post (Some ''S1'') (Some bare_update)) = Some bare_update
   \<and> message bare_update = None \<and> edited_message bare_update = None
   \<and> fst (webhook env_S1 (post (Some ''S1'') (Some bare_update)))
       = \<lparr>status = 200, body = ''ok''\<rparr>
   \<and> outbound_calls (snd (webhook env_S1 (post (Some ''S1'') (Some bare_update)))) = []"
proof -
  have h1: "passes_secret_check env_S1 (post (Some ''S1'') (Some bare_update))"
    by (simp add: passes_secret_check_def)
  have h2: "json (post (Some ''S1'') (Some bare_update)) = Some bare_update" by simp
  have h3: "message bare_update = None" by simp
  have h4: "edited_message bare_update = None" by simp
  from webhook_no_message_acks [OF h1 h2 h3 h4] h1 h2 h3 h4 show ?thesis
    by (simp only: simp_thms)
qed

text \<open>
  C9.  When an update has a \<open>message\<close>, the handler uses it, its chat id and its
  sender, and the result does not depend on \<open>edited_message\<close>; with no \<open>message\<close> the
  payload is \<open>edited_message\<close>.
\<close>

theorem webhook_prefers_message:
  assumes "passes_secret_check env req" and "json req = Some u" and "message u = Some m"
  shows "webhook env (req\<lparr>json := Some (u\<lparr>edited_message := e\<rparr>)\<rparr>) = webhook env req
       \<and> scheduled_sends (snd (webhook env req)) =
           (case chat m of
              None \<Rightarrow> []
            | Some ch \<Rightarrow> [WaitUntil (SendMessage (BOT_API_TOKEN env) (chat_id ch)
                                       (buildGreeting (from_user m)))])
       \<and> selected_message (u\<lparr>message := None\<rparr>) = edited_message u"
  using assms
  by (auto simp add: webhook_def passes_secret_check_def selected_message_def
      scheduled_sends_def Let_def split: option.splits)

theorem webhook_prefers_message_witness:
  "passes_secret_check env_S1 (post (Some ''S1'') (Some both_update))
   \<and> json (post (Some ''S1'') (Some both_update)) = Some both_update
   \<and> message both_update = Some from_bob
   \<and> webhook env_S1 (post (Some ''S1'') (Some (both_update\<lparr>edited_message := None\<rparr>)))
       = webhook env_S1 (post (Some ''S1'') (Some both_update))
   \<and> scheduled_sends (snd (webhook env_S1 (post (Some ''S1'') (Some both_update))))
       = [WaitUntil (SendMessage ''123:abc'' 42 ''Hello @bob Bob'')]"
proof -
  have h1: "passes_secret_check env_S1 (post (Some ''S1'') (Some both_update))"
    by (simp add: passes_secret_check_def)
  have h2: "json (post (Some ''S1'') (Some both_update)) = Some both_update" by simp
  have h3: "message both_update = Some from_bob" by simp
  have g: "buildGreeting (Some bob) = ''Hello @bob Bob''"
    by (simp add: greeting_parts_def trim_def isWhiteSpace_def)
  from webhook_prefers_message [OF h1 h2 h3, of None] h1 h2 h3 g show ?thesis
    by simp
qed

text \<open>
  C10.  When the selected message payload has no \<open>chat\<close>, the handler answers 200 with
  body \<open>ok\<close> and schedules no send, exactly as for an update with no message payload.
\<close>

theorem webhook_no_chat_acks:
  assumes "passes_secret_check env req" and "json req = Some u"
    and "selected_message u = Some m" and "chat m = None"
  shows "fst (webhook env req) = \<lparr>status = 200, body = ''ok''\<rparr>
       \<and> scheduled_sends (snd (webhook env req)) = []
       \<and> webhook env req
           = webhook env (req\<lparr>json := Some (u\<lparr>message := None, edited_message := None\<rparr>)\<rparr>)"
  using assms
  by (auto simp add: webhook_def passes_secret_check_def selected_message_def
      text_response_def scheduled_sends_def Let_def split: option.splits)

theorem webhook_no_chat_acks_witness:
  "passes_secret_check env_open (post None (Some chatless_update))
   \<and> json (post None (Some chatless_update)) = Some chatless_update
   \<and> selected_message chatless_update = Some chatless \<and> chat chatless = None
   \<and> fst (webhook env_open (post None (Some chatless_update)))
       = \<lparr>status = 200, body = ''ok''\<rparr>
   \<and> scheduled_sends (snd (webhook env_open (post None (Some chatless_update)))) = []
   \<and> webhook env_open (post None (Some chatless_update))
       = webhook env_open (post None (Some (bare_update\<lparr>update_id := 3\<rparr>)))"
proof -
  have h1: "passes_secret_check env_open (post None (Some chatless_update))"
    by (simp add: passes_secret_check_def)
  have h2: "json (post None (Some chatless_update)) = Some chatless_update" by simp
  have h3: "selected_message chatless_update = Some chatless"
    by (simp add: selected_message_def)
  have h4: "chat chatless = None" by simp
  from webhook_no_chat_acks [OF h1 h2 h3 h4] h1 h2 h3 h4 show ?thesis
    by (simp add: webhook_def selected_message_def text_response_def scheduled_sends_def)
qed

section \<open>The greeting\<close>

lemma trim_unchanged:
  assumes "s \<noteq> []" and "\<not> isWhiteSpace (hd s)" and "\<not> isWhiteSpace (last s)"
  shows "trim s = s"
proof -
  have lead: "dropWhile isWhiteSpace s = s"
    using assms(2) by (simp add: dropWhile_eq_self_iff)
  have trail: "dropWhile isWhiteSpace (rev s) = rev s"
    using assms(3) by (simp add: dropWhile_eq_self_iff hd_rev)
  show ?thesis
    by (simp add: trim_def lead trail)
qed

lemma join_nonempty:
  "ts \<noteq> [] \<Longrightarrow> \<forall>t \<in> set ts. t \<noteq> [] \<Longrightarrow> join ts \<noteq> []"
  by (induction ts rule: join.induct) simp_all

lemma hd_join:
  "ts \<noteq> [] \<Longrightarrow> \<forall>t \<in> set ts. t \<noteq> [] \<Longrightarrow> hd (join ts) = hd (hd ts)"
  by (induction ts rule: join.induct) simp_all

lemma last_join:
  "ts \<noteq> [] \<Longrightarrow> \<forall>t \<in> set ts. t \<noteq> [] \<Longrightarrow> last (join ts) = last (last ts)"
  by (induction ts rule: join.induct) (simp_all add: join_nonempty)

lemma parts_eq_tokens: "greeting_parts u = spec_tokens u"
  by (cases "username u"; cases "first_name u"; cases "last_name u")
    (simp_all add: greeting_parts_def spec_tokens_def)

lemma tokens_empty_iff:
  "spec_tokens u = [] \<longleftrightarrow>
     \<not> (present (username u) \<or> present (first_name u) \<or> present (last_name u))"
  by (cases "username u"; cases "first_name u"; cases "last_name u")
    (simp_all add: spec_tokens_def)

lemma at_not_space: "\<not> isWhiteSpace CHR ''@''"
  by (simp add: isWhiteSpace_def)

lemma tokens_shape:
  assumes "tidy (username u)" and "tidy (first_name u)" and "tidy (last_name u)"
    and "spec_tokens u \<noteq> []"
  shows "(\<forall>t \<in> set (spec_tokens u). t \<noteq> [])
       \<and> \<not> isWhiteSpace (hd (hd (spec_tokens u)))
       \<and> \<not> isWhiteSpace (last (last (spec_tokens u)))"
  using assms
  by (cases "username u"; cases "first_name u"; cases "last_name u")
    (auto simp add: spec_tokens_def at_not_space)

lemma greeting_trimmed:
  "buildGreeting (Some u) =
     (if trim (join (spec_tokens u)) = [] then ''Hello there''
      else ''Hello '' @ trim (join (spec_tokens u)))"
  by (simp add: parts_eq_tokens Let_def)

lemma greeting_of_tidy:
  assumes "tidy (username u)" and "tidy (first_name u)" and "tidy (last_name u)"
  shows "buildGreeting (Some u) = spec_greeting (Some u)"
proof (cases "spec_tokens u = []")
  case True
  then show ?thesis
    using tokens_empty_iff [of u]
    by (simp add: greeting_trimmed trim_def del: buildGreeting.simps)
next
  case False
  note shape = tokens_shape [OF assms False]
  have ne: "join (spec_tokens u) \<noteq> []"
    using False shape by (simp add: join_nonempty)
  have "trim (join (spec_tokens u)) = join (spec_tokens u)"
    using False shape ne by (intro trim_unchanged) (simp_all add: hd_join last_join)
  then have "buildGreeting (Some u) = ''Hello '' @ join (spec_tokens u)"
    using ne by (simp add: greeting_trimmed del: buildGreeting.simps)
  moreover have "spec_greeting (Some u) = ''Hello '' @ join (spec_tokens u)"
    using False tokens_empty_iff [of u] by (simp only: spec_greeting.simps if_True simp_thms)
  ultimately show ?thesis
    by (simp only:)
qed

text \<open>
  C3, as stated, fails: the joined text is trimmed before \<open>Hello\<close> is put in front.  For
  a sender whose only field is the first name \<open>B\<close> with a space before it, the code
  gives \<open>Hello B\<close>, with one space, where the concatenation of the claim has two.
\<close>

theorem buildGreeting_untrimmed_counterexample:
  "buildGreeting (Some padded) = ''Hello B''
   \<and> spec_greeting (Some padded) = ''Hello  B''
   \<and> buildGreeting (Some padded) \<noteq> spec_greeting (Some padded)"
  by (simp add: greeting_parts_def trim_def isWhiteSpace_def spec_tokens_def)

text \<open>
  C3, amended.  For an absent sender the greeting is \<open>Hello there\<close>.  Otherwise, with a
  field present when it is a non-empty string, the tokens \<open>@username\<close>, first name, last
  name of the present fields are joined, in order, by single spaces, white space is
  removed from both ends of the joined text, and the greeting is \<open>Hello\<close>, a space and
  that text, or \<open>Hello there\<close> if nothing is left.  When no field begins or ends with
  white space, nothing is removed and the greeting is the one of the specification.
  For username \<open>a\<close>, first name \<open>B\<close>, last name \<open>C\<close> it is \<open>Hello @a B C\<close>.
\<close>

theorem buildGreeting_trims_joined_tokens:
  "buildGreeting None = ''Hello there''
   \<and> buildGreeting (Some u) =
       (if trim (join (spec_tokens u)) = [] then ''Hello there''
        else ''Hello '' @ trim (join (spec_tokens u)))
   \<and> (tidy (username u) \<and> tidy (first_name u) \<and> tidy (last_name u) \<longrightarrow>
        buildGreeting (Some u) = spec_greeting (Some u))
   \<and> buildGreeting (Some \<lparr>user_id = i, is_bot = b, first_name = Some ''B'',
                            last_name = Some ''C'', username = Some ''a''\<rparr>)
       = ''Hello @a B C''"
proof -
  have "buildGreeting (Some \<lparr>user_id = i, is_bot = b, first_name = Some ''B'',
                             last_name = Some ''C'', username = Some ''a''\<rparr>)
          = ''Hello @a B C''"
    by (simp add: greeting_parts_def trim_def isWhiteSpace_def)
  moreover have "buildGreeting None = ''Hello there''"
    by simp
  ultimately show ?thesis
    using greeting_of_tidy [of u] greeting_trimmed [of u] by blast
qed

theorem buildGreeting_trims_joined_tokens_witness:
  "tidy (username bob) \<and> tidy (first_name bob) \<and> tidy (last_name bob)
   \<and> buildGreeting (Some bob) = spec_greeting (Some bob)
   \<and> spec_greeting (Some bob) = ''Hello @bob Bob''"
proof -
  have h: "tidy (username bob) \<and> tidy (first_name bob) \<and> tidy (last_name bob)"
    by (simp add: isWhiteSpace_def)
  have s: "spec_greeting (Some bob) = ''Hello @bob Bob''"
    by (simp add: spec_tokens_def)
  from buildGreeting_trims_joined_tokens [of bob] h s show ?thesis
    by blast
qed

section \<open>The one-time webhook initializer\<close>

lemma try_catch_emit: "fst (try_catch m (\<lambda>err. emit e)) = Inr ()"
  by (cases m) (auto simp add: try_catch_def emit_def split: sum.splits)

lemma fst_emit: "fst (emit e) = Inr ()"
  by (simp add: emit_def)

lemma and_then_Inr: "fst m = Inr x \<Longrightarrow> fst (and_then m f) = fst (f x)"
  by (cases m) (auto simp add: and_then_def split: prod.splits)

text \<open>Every statement of \<open>configureWebhook\<close> that can throw is inside a \<open>try\<close>.\<close>

lemma configureWebhook_fulfils: "fst (configureWebhook fetch env) = Inr ()"
  unfolding configureWebhook_def Let_def
  by (simp add: and_then_Inr [OF try_catch_emit] try_catch_emit fst_emit)

lemma invocations_append: "invocations (xs @ ys) = invocations xs + invocations ys"
  by (simp add: invocations_def)

lemma invocations_single: "invocations [WaitUntil ConfigureWebhook] = 1"
  by (simp add: invocations_def)

lemma and_then_silent:
  assumes "invocations (snd m) = 0" and "\<And>x. invocations (snd (f x)) = 0"
  shows "invocations (snd (and_then m f)) = 0"
proof (cases m)
  case (Pair r es)
  then show ?thesis
    using assms
    by (cases r)
      (auto simp add: and_then_def invocations_append split: prod.splits, (metis snd_conv)+)
qed

lemma try_catch_silent:
  assumes "invocations (snd m) = 0" and "\<And>err. invocations (snd (h err)) = 0"
  shows "invocations (snd (try_catch m h)) = 0"
proof (cases m)
  case (Pair r es)
  then show ?thesis
    using assms
    by (cases r)
      (auto simp add: try_catch_def invocations_append split: prod.splits, (metis snd_conv)+)
qed

lemma emit_silent: "e \<noteq> WaitUntil ConfigureWebhook \<Longrightarrow> invocations (snd (emit e)) = 0"
  by (simp add: emit_def invocations_def)

lemma basic_silent:
  "invocations (snd (ret x)) = 0"
  "invocations (snd (await r)) = 0"
  "invocations (snd (do_fetch fetch rq)) = 0"
  by (simp_all add: ret_def await_def do_fetch_def invocations_def)

lemma delete_block_silent: "invocations (snd (delete_block fetch token)) = 0"
  unfolding delete_block_def
  by (intro and_then_silent basic_silent) (simp add: emit_silent basic_silent)

lemma set_block_silent: "invocations (snd (set_block fetch token baseUrl secret)) = 0"
  unfolding set_block_def
  by (intro and_then_silent basic_silent) (simp add: emit_silent)

lemma configureWebhook_silent: "invocations (snd (configureWebhook fetch env)) = 0"
  unfolding configureWebhook_def Let_def
  by (intro and_then_silent try_catch_silent delete_block_silent)
     (simp_all add: emit_silent try_catch_silent set_block_silent)

lemma cold_start_inv: "latch_inv cold_start"
  by (simp add: latch_inv_def cold_start_def invocations_def)

lemma middleware_inv: "latch_inv p \<Longrightarrow> latch_inv (middleware env fetch p)"
  by (auto simp add: latch_inv_def middleware_def invocations_append invocations_single
      configureWebhook_fulfils configureWebhook_silent)

lemma settle_inv: "latch_inv p \<Longrightarrow> latch_inv (settle p)"
  by (auto simp add: latch_inv_def settle_def invocations_append
      split: option.splits promise.splits sum.splits prod.splits)

lemma step_inv: "latch_inv p \<Longrightarrow> latch_inv (step env p ev)"
  by (cases ev) (simp_all add: middleware_inv settle_inv)

lemma foldl_inv: "latch_inv p \<Longrightarrow> latch_inv (foldl (step env) p evs)"
  by (induction evs arbitrary: p) (simp_all add: step_inv)

lemma inv_bound: "latch_inv p \<Longrightarrow> invocations (trace p) \<le> 1"
  by (auto simp add: latch_inv_def split: option.splits promise.splits)

text \<open>Once set, the latch is never reset: the pending promise is never rejected.\<close>

lemma step_keeps_latch:
  "latch_inv p \<Longrightarrow> webhookInitPromise p \<noteq> None
   \<Longrightarrow> webhookInitPromise (step env p ev) \<noteq> None"
  by (cases ev) (auto simp add: latch_inv_def middleware_def settle_def
      split: option.splits promise.splits sum.splits prod.splits)

lemma foldl_keeps_latch:
  "latch_inv p \<Longrightarrow> webhookInitPromise p \<noteq> None
   \<Longrightarrow> webhookInitPromise (foldl (step env) p evs) \<noteq> None"
proof (induction evs arbitrary: p)
  case Nil
  then show ?case by simp
next
  case (Cons ev evs)
  have "webhookInitPromise (foldl (step env) (step env p ev) evs) \<noteq> None"
    using Cons.prems by (intro Cons.IH step_inv step_keeps_latch)
  then show ?case by simp
qed

lemma inv_started:
  "latch_inv p \<Longrightarrow> webhookInitPromise p \<noteq> None \<Longrightarrow> invocations (trace p) = 1"
  by (auto simp add: latch_inv_def split: option.splits promise.splits)

lemma run_at_most_once: "invocations (trace (run env evs)) \<le> 1"
  unfolding run_def by (intro inv_bound foldl_inv cold_start_inv)

lemma started_stays_once:
  assumes "enabled env"
  shows "invocations (trace (foldl (step env) (middleware env fetch cold_start) evs)) = 1"
proof -
  let ?p = "middleware env fetch cold_start"
  have i: "latch_inv ?p"
    by (intro middleware_inv cold_start_inv)
  have l: "webhookInitPromise ?p \<noteq> None"
    using assms by (simp add: middleware_def cold_start_def)
  show ?thesis
    by (rule inv_started [OF foldl_inv [OF i] foldl_keeps_latch [OF i l]])
qed

text \<open>Until a request reaches the middleware, the process stays as it started.\<close>

lemma idle_prefix:
  "\<forall>e \<in> set pre. \<not> (\<exists>f. e = Request f) \<Longrightarrow> foldl (step env) cold_start pre = cold_start"
proof (induction pre)
  case Nil
  then show ?case by simp
next
  case (Cons e pre)
  then have "step env cold_start e = cold_start"
    by (cases e) (simp_all add: settle_def cold_start_def)
  with Cons show ?case by simp
qed

lemma run_once_when_enabled:
  assumes "enabled env" and "Request fetch \<in> set evs"
  shows "invocations (trace (run env evs)) = 1"
proof -
  have "\<exists>e \<in> set evs. \<exists>f. e = Request f"
    using assms(2) by blast
  then obtain pre e post where split: "evs = pre @ e # post"
    and req: "\<exists>f. e = Request f" and idle: "\<forall>x \<in> set pre. \<not> (\<exists>f. x = Request f)"
    using split_list_first_prop [of evs "\<lambda>e. \<exists>f. e = Request f"] by blast
  from req obtain f where e: "e = Request f" by blast
  have "run env evs = foldl (step env) (middleware env f cold_start) post"
    by (simp add: run_def split e idle_prefix [OF idle])
  then show ?thesis
    using started_stays_once [OF assms(1)] by simp
qed

lemma try_catch_Inl: "fst m = Inl err \<Longrightarrow> snd (try_catch m h) = snd m @ snd (h err)"
  by (cases m) (auto simp add: try_catch_def split: prod.splits)

lemma and_then_first: "set (snd m) \<subseteq> set (snd (and_then m f))"
  by (cases m) (auto simp add: and_then_def split: sum.splits prod.splits)

lemma and_then_second: "fst m = Inr x \<Longrightarrow> set (snd (f x)) \<subseteq> set (snd (and_then m f))"
  by (cases m) (auto simp add: and_then_def split: sum.splits prod.splits)

lemma delete_error_logged:
  assumes "fst (delete_block fetch (BOT_API_TOKEN env)) = Inl err"
  shows "ConsoleWarn ''deleteWebhook error'' \<in> set (snd (configureWebhook fetch env))"
proof -
  have "ConsoleWarn ''deleteWebhook error''
          \<in> set (snd (try_catch (delete_block fetch (BOT_API_TOKEN env))
                        (\<lambda>err. emit (ConsoleWarn ''deleteWebhook error''))))"
    by (simp add: try_catch_Inl [OF assms] emit_def)
  then show ?thesis
    unfolding configureWebhook_def Let_def using and_then_first by blast
qed

lemma set_error_logged:
  assumes "truthy (map_option strip_slash (BASE_URL env))"
    and "fst (set_block fetch (BOT_API_TOKEN env) (the (map_option strip_slash (BASE_URL env)))
               (WEBHOOK_SECRET_TOKEN env)) = Inl err"
  shows "ConsoleError ''setWebhook error'' \<in> set (snd (configureWebhook fetch env))"
proof -
  let ?d = "try_catch (delete_block fetch (BOT_API_TOKEN env))
              (\<lambda>err. emit (ConsoleWarn ''deleteWebhook error''))"
  let ?f = "\<lambda>_::unit. if truthy (map_option strip_slash (BASE_URL env)) then
                   try_catch (set_block fetch (BOT_API_TOKEN env)
                                (the (map_option strip_slash (BASE_URL env)))
                                (WEBHOOK_SECRET_TOKEN env))
                     (\<lambda>err. emit (ConsoleError ''setWebhook error''))
                 else emit (ConsoleWarn ''configureWebhook skipped: BASE_URL not configured'')"
  have "ConsoleError ''setWebhook error''
          \<in> set (snd (try_catch (set_block fetch (BOT_API_TOKEN env)
                          (the (map_option strip_slash (BASE_URL env))) (WEBHOOK_SECRET_TOKEN env))
                        (\<lambda>err. emit (ConsoleError ''setWebhook error''))))"
    by (simp add: try_catch_Inl [OF assms(2)] emit_def)
  then have "ConsoleError ''setWebhook error'' \<in> set (snd (?f ()))"
    using assms(1) by simp
  moreover have "set (snd (?f ())) \<subseteq> set (snd (and_then ?d ?f))"
    by (rule and_then_second [OF try_catch_emit])
  ultimately have "ConsoleError ''setWebhook error'' \<in> set (snd (and_then ?d ?f))"
    by blast
  then show ?thesis
    by (simp add: configureWebhook_def Let_def)
qed

text \<open>
  C6.  Over every sequence of requests and settlements of one process,
  \<open>configureWebhook\<close> is started at most once, and exactly once when \<open>AUTO_WEBHOOK_INIT\<close>
  is enabled and some request has reached the middleware: the latch
  \<open>webhookInitPromise\<close> is set before anything else can run and is never reset, because
  \<open>configureWebhook\<close> never rejects.  An error thrown while deleting or while setting
  the webhook is logged.
\<close>

theorem webhook_init_at_most_once:
  "invocations (trace (run env evs)) \<le> 1
   \<and> (enabled env \<and> Request fetch \<in> set evs \<longrightarrow> invocations (trace (run env evs)) = 1)
   \<and> fst (configureWebhook fetch env) = Inr ()
   \<and> (fst (delete_block fetch (BOT_API_TOKEN env)) = Inl err \<longrightarrow>
        ConsoleWarn ''deleteWebhook error'' \<in> set (snd (configureWebhook fetch env)))
   \<and> (truthy (map_option strip_slash (BASE_URL env))
        \<and> fst (set_block fetch (BOT_API_TOKEN env)
                 (the (map_option strip_slash (BASE_URL env))) (WEBHOOK_SECRET_TOKEN env))
            = Inl err \<longrightarrow>
        ConsoleError ''setWebhook error'' \<in> set (snd (configureWebhook fetch env)))"
  using run_at_most_once run_once_when_enabled configureWebhook_fulfils
    delete_error_logged set_error_logged
  by blast

theorem webhook_init_at_most_once_witness:
  "invocations (trace (run env_S1 [Health, Request offline, Settle, Request offline])) \<le> 1
   \<and> enabled env_S1
   \<and> Request offline \<in> set [Health, Request offline, Settle, Request offline]
   \<and> invocations (trace (run env_S1 [Health, Request offline, Settle, Request offline])) = 1
   \<and> invocations (trace (run env_S1 [Health, Settle, Health])) = 0
   \<and> fst (configureWebhook offline env_S1) = Inr ()
   \<and> fst (delete_block offline (BOT_API_TOKEN env_S1)) = Inl ''fetch failed''
   \<and> ConsoleWarn ''deleteWebhook error'' \<in> set (snd (configureWebhook offline env_S1))
   \<and> truthy (map_option strip_slash (BASE_URL env_S1))
   \<and> fst (set_block offline (BOT_API_TOKEN env_S1)
            (the (map_option strip_slash (BASE_URL env_S1))) (WEBHOOK_SECRET_TOKEN env_S1))
       = Inl ''fetch failed''
   \<and> ConsoleError ''setWebhook error'' \<in> set (snd (configureWebhook offline env_S1))"
proof -
  have h1: "enabled env_S1"
    by code_simp
  have h2: "fst (delete_block offline (BOT_API_TOKEN env_S1)) = Inl ''fetch failed''"
    by (simp add: delete_block_def and_then_def do_fetch_def)
  have h3: "truthy (map_option strip_slash (BASE_URL env_S1))"
    by (simp add: strip_slash_def)
  have h4: "fst (set_block offline (BOT_API_TOKEN env_S1)
                  (the (map_option strip_slash (BASE_URL env_S1))) (WEBHOOK_SECRET_TOKEN env_S1))
              = Inl ''fetch failed''"
    by (simp add: set_block_def and_then_def do_fetch_def)
  have h5: "Request offline \<in> set [Health, Request offline, Settle, Request offline]"
    by simp
  have h6: "invocations (trace (run env_S1 [Health, Settle, Health])) = 0"
    by (simp add: run_def cold_start_def settle_def invocations_def)
  from webhook_init_at_most_once
         [of env_S1 "[Health, Request offline, Settle, Request offline]" offline
            "''fetch failed''"]
       h1 h2 h3 h4 h5 h6
  show ?thesis
    by blast
qed

section \<open>The secret-enforcement check of the status script\<close>

text \<open>
  C7.  The check passes if and only if \<open>BASE_URL\<close> is set, so that its two calls are
  made, and of the statuses that \<open>fetchJson\<close> returns for the call with the configured
  secret and for the call with a wrong secret: with a secret configured, the first is
  200 and the second 401; with none configured, both are 200.  The calls made are these
  two, in this order, and none when \<open>BASE_URL\<close> is missing.
\<close>

theorem checkWebhookSecret_passes_iff:
  "(ok (fst (checkWebhookSecret fetch baseUrl secret)) \<longleftrightarrow>
      baseUrl \<noteq> []
      \<and> (if truthy secret
         then fetched_status (fetchJson fetch (webhook_post baseUrl (the secret) 1)) = 200
              \<and> fetched_status (fetchJson fetch (webhook_post baseUrl ''__invalid__'' 2)) = 401
         else fetched_status (fetchJson fetch (webhook_post baseUrl [] 1)) = 200
              \<and> fetched_status (fetchJson fetch (webhook_post baseUrl ''__invalid__'' 2)) = 200))
   \<and> snd (checkWebhookSecret fetch baseUrl secret) =
       (if baseUrl = [] then []
        else [(webhook_post baseUrl (if truthy secret then the secret else []) 1,
               fetchJson fetch (webhook_post baseUrl (if truthy secret then the secret else []) 1)),
              (webhook_post baseUrl ''__invalid__'' 2,
               fetchJson fetch (webhook_post baseUrl ''__invalid__'' 2))])"
  by (auto simp add: checkWebhookSecret_def Let_def)

theorem checkWebhookSecret_passes_iff_witness:
  "ok (fst (checkWebhookSecret worker_S1 ''https://bot.example.dev'' (Some ''S1'')))
   \<and> fetched_status (fetchJson worker_S1 (webhook_post ''https://bot.example.dev'' ''S1'' 1))
       = 200
   \<and> fetched_status
         (fetchJson worker_S1 (webhook_post ''https://bot.example.dev'' ''__invalid__'' 2))
       = 401
   \<and> \<not> ok (fst (checkWebhookSecret worker_S1 ''https://bot.example.dev'' None))
   \<and> \<not> ok (fst (checkWebhookSecret worker_S1 [] (Some ''S1'')))
   \<and> snd (checkWebhookSecret worker_S1 [] (Some ''S1'')) = []"
proof -
  have good:
    "fetched_status (fetchJson worker_S1 (webhook_post ''https://bot.example.dev'' ''S1'' 1))
       = 200"
    by (simp add: webhook_post_def fetchJson_def)
  have bad:
    "fetched_status
       (fetchJson worker_S1 (webhook_post ''https://bot.example.dev'' ''__invalid__'' 2))
       = 401"
    by (simp add: webhook_post_def fetchJson_def)
  have unsent:
    "fetched_status (fetchJson worker_S1 (webhook_post ''https://bot.example.dev'' [] 1)) = 401"
    by (simp add: webhook_post_def fetchJson_def)
  from checkWebhookSecret_passes_iff [of worker_S1 "''https://bot.example.dev''" "Some ''S1''"]
       checkWebhookSecret_passes_iff [of worker_S1 "''https://bot.example.dev''" None]
       checkWebhookSecret_passes_iff [of worker_S1 "[]" "Some ''S1''"]
       good bad unsent
  show ?thesis
    by simp
qed

end
